theory Spec2Isabelle
  imports Main
begin

section \<open>JavaScript strings and key normalisation\<close>

text \<open>
  A JavaScript string is a sequence of UTF-16 code units. It is modelled as a list of
  natural numbers, one per code unit, so that every white-space code unit of the
  regular expression class \<open>\s\<close> can be written down. \<open>str\<close> turns an ASCII
  literal into such a sequence.
\<close>

type_synonym jstring = "nat list"

definition str :: "string \<Rightarrow> jstring" where
  "str s = map of_char s"

text \<open>
  The code units matched by \<open>\s\<close>: TAB, LF, VT, FF, CR, SPACE, NBSP, U+1680,
  U+2000 to U+200A, U+2028, U+2029, U+202F, U+205F, U+3000 and U+FEFF.
\<close>

definition js_whitespace :: "nat \<Rightarrow> bool" where
  "js_whitespace c \<longleftrightarrow>
     (9 \<le> c \<and> c \<le> 13) \<or> c = 32 \<or> c = 160 \<or> c = 5760 \<or>
     (8192 \<le> c \<and> c \<le> 8202) \<or> c = 8232 \<or> c = 8233 \<or> c = 8239 \<or>
     c = 8287 \<or> c = 12288 \<or> c = 65279"

text \<open>
  \<^verbatim>\<open>function normKey(k){ return (typeof k === 'string') ? k.replace(/\s+/g,'') : k; }\<close>
  On a string, replacing every maximal run of white space by the empty string keeps
  exactly the code units that are not white space, in order.
\<close>

definition normKey :: "jstring \<Rightarrow> jstring" where
  "normKey k = filter (\<lambda>c. \<not> js_whitespace c) k"

section \<open>Rate limiter\<close>

text \<open>
  \<^verbatim>\<open>const rateLimit = new Map();  const LIMIT = 20;  const TIME_FRAME = 60 * 1000;\<close>
  One record \<open>{ count, startTime }\<close> per origin address; times are the milliseconds
  of \<open>Date.now()\<close>.
\<close>

record rate_record =
  count :: nat
  startTime :: int

type_synonym rate_table = "jstring \<rightharpoonup> rate_record"

definition LIMIT :: nat where
  "LIMIT = 20"

definition TIME_FRAME :: int where
  "TIME_FRAME = 60 * 1000"

text \<open>A socket as the handlers see it: \<open>socket.id\<close> and \<open>socket.handshake.address\<close>.\<close>

record socket =
  sid :: jstring
  address :: jstring

text \<open>
  \<open>isRateLimited\<close> reads the clock and the table and may write the table; the model
  takes the clock value and the table and returns the answer with the new table.
\<close>

definition isRateLimited :: "rate_table \<Rightarrow> socket \<Rightarrow> int \<Rightarrow> bool \<times> rate_table" where
  "isRateLimited rl socket now =
     (let ip = address socket in
      case rl ip of
        None \<Rightarrow> (False, rl(ip \<mapsto> \<lparr>count = 1, startTime = now\<rparr>))
      | Some record \<Rightarrow>
          if now - startTime record > TIME_FRAME
          then (False, rl(ip \<mapsto> \<lparr>count = 1, startTime = now\<rparr>))
          else if count record \<ge> LIMIT then (True, rl)
          else (False, rl(ip \<mapsto> record\<lparr>count := count record + 1\<rparr>)))"

text \<open>A sequence of checks, each by some socket at some clock value, in order.\<close>

fun run_checks :: "rate_table \<Rightarrow> (socket \<times> int) list \<Rightarrow> bool list \<times> rate_table" where
  "run_checks rl [] = ([], rl)"
| "run_checks rl ((socket, now) # cs) =
     (let (limited, rl1) = isRateLimited rl socket now;
          (rest, rl2) = run_checks rl1 cs
      in (limited # rest, rl2))"

section \<open>The registry object\<close>

text \<open>
  \<^verbatim>\<open>const userSockets = {};\<close> is an ordinary object whose prototype is
  \<open>Object.prototype\<close>. Its own properties map a normalised key to a socket id.
  Three operations of the language act on it:
  \<^item> reading \<open>userSockets[key]\<close> yields the own property when there is one; otherwise
    the lookup continues in \<open>Object.prototype\<close>, which answers for its own property
    names with a built-in function or object (never a string, always truthy); otherwise
    the result is \<open>undefined\<close>;
  \<^item> writing \<open>userSockets[key] = id\<close> creates or overwrites the own property, except
    for the key \<open>__proto__\<close>: that name is an accessor of \<open>Object.prototype\<close>, whose
    setter ignores a value that is neither an object nor null, so no property is created;
  \<^item> \<open>delete userSockets[key]\<close> removes the own property, if any.
\<close>

datatype lookup = Undefined | ConnId jstring | Inherited

definition object_prototype_names :: "jstring list" where
  "object_prototype_names = map str
     [''constructor'', ''__defineGetter__'', ''__defineSetter__'', ''hasOwnProperty'',
      ''__lookupGetter__'', ''__lookupSetter__'', ''isPrototypeOf'',
      ''propertyIsEnumerable'', ''toString'', ''valueOf'', ''__proto__'',
      ''toLocaleString'']"

definition obj_get :: "(jstring \<rightharpoonup> jstring) \<Rightarrow> jstring \<Rightarrow> lookup" where
  "obj_get obj key =
     (case obj key of
        Some v \<Rightarrow> ConnId v
      | None \<Rightarrow> if key \<in> set object_prototype_names then Inherited else Undefined)"

definition obj_set :: "(jstring \<rightharpoonup> jstring) \<Rightarrow> jstring \<Rightarrow> jstring \<Rightarrow> (jstring \<rightharpoonup> jstring)" where
  "obj_set obj key v = (if key = str ''__proto__'' then obj else obj(key \<mapsto> v))"

definition obj_delete :: "(jstring \<rightharpoonup> jstring) \<Rightarrow> jstring \<Rightarrow> (jstring \<rightharpoonup> jstring)" where
  "obj_delete obj key = obj(key := None)"

text \<open>The truth value of a lookup result in \<open>if (targetId)\<close>: the empty string is falsy.\<close>

fun truthy :: "lookup \<Rightarrow> bool" where
  "truthy Undefined = False"
| "truthy (ConnId v) = (v \<noteq> [])"
| "truthy Inherited = True"

section \<open>Server state, events and messages\<close>

text \<open>
  The state shared by all handlers: the rate-limit table, the own properties of
  \<open>userSockets\<close>, the field \<open>socket.data.pubKey\<close> of every socket (by socket id; no
  entry while the field is undefined), and the members of every room in the order
  in which they joined.
\<close>

record server_state =
  rateLimit :: rate_table
  userSockets :: "jstring \<rightharpoonup> jstring"
  pubKey :: "jstring \<rightharpoonup> jstring"
  rooms :: "jstring \<Rightarrow> jstring list"

definition init_state :: server_state where
  "init_state = \<lparr>rateLimit = Map.empty, userSockets = Map.empty, pubKey = Map.empty,
                 rooms = (\<lambda>_. [])\<rparr>"

text \<open>
  What a client sends, as section 6 of the specification types it. The identifier of
  \<open>register\<close> is a string or absent (\<open>None\<close> stands for \<open>undefined\<close> and \<open>null\<close>);
  the fields \<open>to\<close>, \<open>from\<close> and \<open>room\<close> are strings; \<open>callType\<close> and \<open>payload\<close>
  are opaque values of type \<open>'p\<close>, which the handlers pass on and never inspect. On
  events of these types no handler throws: the only operations that could are the
  \<open>slice\<close> calls of the log lines, and they are applied to strings.
\<close>

datatype 'p event =
    Register "jstring option"
  | RequestConnection jstring jstring
  | AcceptConnection jstring jstring
  | CallRequest jstring jstring 'p
  | CallAccepted jstring jstring
  | CallRejected jstring jstring
  | CallEnded jstring jstring
  | Join jstring
  | Signal jstring 'p
  | Auth jstring 'p
  | Disconnect

text \<open>
  What the server sends: the data of an event is \<open>{ from }\<close>, \<open>{ from, callType }\<close>
  or the bare payload. A delivery is the id of the receiving connection, the name of
  the event and its data.
\<close>

datatype 'p body = From jstring | FromCall jstring 'p | Payload 'p

type_synonym 'p delivery = "jstring \<times> string \<times> 'p body"

subsection \<open>The transport\<close>

text \<open>
  Modelled from the spec: \<open>io.to(targetId).emit(name, data)\<close> of the socket.io
  library, which is not part of the sources. Section 4.3: "deliver a
  correspondingly-named outbound event to that connection". A value that is not a
  connection id addresses no connection.
\<close>

fun io_to_emit :: "lookup \<Rightarrow> string \<Rightarrow> 'p body \<Rightarrow> 'p delivery list" where
  "io_to_emit (ConnId c) name data = [(c, name, data)]"
| "io_to_emit Undefined name data = []"
| "io_to_emit Inherited name data = []"

text \<open>
  Modelled from the spec: \<open>socket.join(room)\<close> of the socket.io library. Section 4.4:
  "adds the connection to the room's member set; repeated joins to the same room are
  idempotent; a connection may belong to multiple rooms simultaneously".
\<close>

definition socket_join :: "(jstring \<Rightarrow> jstring list) \<Rightarrow> socket \<Rightarrow> jstring \<Rightarrow> (jstring \<Rightarrow> jstring list)" where
  "socket_join rs socket room =
     (if sid socket \<in> set (rs room) then rs else rs(room := rs room @ [sid socket]))"

text \<open>
  Modelled from the spec: \<open>socket.to(room).emit(name, data)\<close> of the socket.io
  library. Section 4.4: "broadcast payload unchanged to every other current member of
  room (sender excluded)".
\<close>

definition socket_to_emit :: "(jstring \<Rightarrow> jstring list) \<Rightarrow> socket \<Rightarrow> jstring \<Rightarrow> string \<Rightarrow> 'p body \<Rightarrow> 'p delivery list" where
  "socket_to_emit rs socket room name data =
     map (\<lambda>member. (member, name, data)) (filter (\<lambda>member. member \<noteq> sid socket) (rs room))"

text \<open>
  Modelled from the spec: the teardown of a connection by the socket.io library.
  Section 4.5: "Room memberships are expected to be dropped implicitly by the transport
  layer tearing down the connection".
\<close>

definition leave_all :: "(jstring \<Rightarrow> jstring list) \<Rightarrow> socket \<Rightarrow> (jstring \<Rightarrow> jstring list)" where
  "leave_all rs socket = (\<lambda>room. removeAll (sid socket) (rs room))"

section \<open>Event handlers\<close>

text \<open>
  Every handler takes the state, the socket of the connection that sent the event and,
  where it reads the clock, the clock value; it returns the new state and the
  deliveries it causes. Console output is not modelled.
\<close>

text \<open>
  \<^verbatim>\<open>socket.on("register", (pubKey) => {
    if (isRateLimited(socket)) { ...; return; }
    if (!pubKey) return;
    const key = normKey(pubKey);
    userSockets[key] = socket.id;
    socket.data.pubKey = key; ... });\<close>
\<close>

definition on_register :: "server_state \<Rightarrow> socket \<Rightarrow> int \<Rightarrow> jstring option \<Rightarrow> server_state \<times> 'p delivery list" where
  "on_register s socket now pubKey' =
     (let (limited, rl) = isRateLimited (rateLimit s) socket now;
          s1 = s\<lparr>rateLimit := rl\<rparr>
      in if limited then (s1, [])
         else case pubKey' of
                None \<Rightarrow> (s1, [])
              | Some k \<Rightarrow>
                  if k = [] then (s1, [])
                  else let key = normKey k
                       in (s1\<lparr>userSockets := obj_set (userSockets s1) key (sid socket),
                              pubKey := (pubKey s1)(sid socket \<mapsto> key)\<rparr>, []))"

text \<open>
  \<^verbatim>\<open>socket.on("request-connection", ({ to, from }) => {
    if (isRateLimited(socket)) { ...; return; }
    const targetId = userSockets[normKey(to)];
    if (targetId) { io.to(targetId).emit("incoming-request", { from: normKey(from) }); ... }
    else { ... } });\<close>
\<close>

definition on_request_connection :: "server_state \<Rightarrow> socket \<Rightarrow> int \<Rightarrow> jstring \<Rightarrow> jstring \<Rightarrow> server_state \<times> 'p delivery list" where
  "on_request_connection s socket now to from =
     (let (limited, rl) = isRateLimited (rateLimit s) socket now;
          s1 = s\<lparr>rateLimit := rl\<rparr>
      in if limited then (s1, [])
         else let targetId = obj_get (userSockets s1) (normKey to)
              in if truthy targetId
                 then (s1, io_to_emit targetId ''incoming-request'' (From (normKey from)))
                 else (s1, []))"

text \<open>
  \<^verbatim>\<open>socket.on("accept-connection", ({ to, from }) => {
    const targetId = userSockets[normKey(to)];
    if (targetId) { io.to(targetId).emit("connection-accepted", { from: normKey(from) }); ... }
    else { ... } });\<close>
\<close>

definition on_accept_connection :: "server_state \<Rightarrow> socket \<Rightarrow> jstring \<Rightarrow> jstring \<Rightarrow> server_state \<times> 'p delivery list" where
  "on_accept_connection s socket to from =
     (let targetId = obj_get (userSockets s) (normKey to)
      in if truthy targetId
         then (s, io_to_emit targetId ''connection-accepted'' (From (normKey from)))
         else (s, []))"

text \<open>
  \<^verbatim>\<open>socket.on("call-request", ({ to, from, callType }) => {
    const targetId = userSockets[normKey(to)];
    if (targetId) { io.to(targetId).emit("incoming-call", { from: normKey(from), callType }); ... } });\<close>
\<close>

definition on_call_request :: "server_state \<Rightarrow> socket \<Rightarrow> jstring \<Rightarrow> jstring \<Rightarrow> 'p \<Rightarrow> server_state \<times> 'p delivery list" where
  "on_call_request s socket to from callType =
     (let targetId = obj_get (userSockets s) (normKey to)
      in if truthy targetId
         then (s, io_to_emit targetId ''incoming-call'' (FromCall (normKey from) callType))
         else (s, []))"

text \<open>
  \<^verbatim>\<open>socket.on("call-accepted", ({ to, from }) => {
    const targetId = userSockets[normKey(to)];
    if (targetId) { io.to(targetId).emit("call-accepted", { from: normKey(from) }); ... } });\<close>
  and the same for \<open>call-rejected\<close> and \<open>call-ended\<close>.
\<close>

definition on_call_accepted :: "server_state \<Rightarrow> socket \<Rightarrow> jstring \<Rightarrow> jstring \<Rightarrow> server_state \<times> 'p delivery list" where
  "on_call_accepted s socket to from =
     (let targetId = obj_get (userSockets s) (normKey to)
      in if truthy targetId
         then (s, io_to_emit targetId ''call-accepted'' (From (normKey from)))
         else (s, []))"

definition on_call_rejected :: "server_state \<Rightarrow> socket \<Rightarrow> jstring \<Rightarrow> jstring \<Rightarrow> server_state \<times> 'p delivery list" where
  "on_call_rejected s socket to from =
     (let targetId = obj_get (userSockets s) (normKey to)
      in if truthy targetId
         then (s, io_to_emit targetId ''call-rejected'' (From (normKey from)))
         else (s, []))"

definition on_call_ended :: "server_state \<Rightarrow> socket \<Rightarrow> jstring \<Rightarrow> jstring \<Rightarrow> server_state \<times> 'p delivery list" where
  "on_call_ended s socket to from =
     (let targetId = obj_get (userSockets s) (normKey to)
      in if truthy targetId
         then (s, io_to_emit targetId ''call-ended'' (From (normKey from)))
         else (s, []))"

text \<open>
  \<^verbatim>\<open>socket.on("join", (room) => { socket.join(room); ... });
  socket.on("signal", ({ room, payload }) => { socket.to(room).emit("signal", payload); });
  socket.on("auth", ({ room, payload }) => { socket.to(room).emit("auth", payload); });\<close>
\<close>

definition on_join :: "server_state \<Rightarrow> socket \<Rightarrow> jstring \<Rightarrow> server_state \<times> 'p delivery list" where
  "on_join s socket room = (s\<lparr>rooms := socket_join (rooms s) socket room\<rparr>, [])"

definition on_signal :: "server_state \<Rightarrow> socket \<Rightarrow> jstring \<Rightarrow> 'p \<Rightarrow> server_state \<times> 'p delivery list" where
  "on_signal s socket room payload = (s, socket_to_emit (rooms s) socket room ''signal'' (Payload payload))"

definition on_auth :: "server_state \<Rightarrow> socket \<Rightarrow> jstring \<Rightarrow> 'p \<Rightarrow> server_state \<times> 'p delivery list" where
  "on_auth s socket room payload = (s, socket_to_emit (rooms s) socket room ''auth'' (Payload payload))"

text \<open>
  \<^verbatim>\<open>socket.on("disconnect", () => {
    if (socket.data.pubKey) { delete userSockets[socket.data.pubKey]; ... } });\<close>
  The transport has dropped the room memberships of the socket before the handler
  runs. An undefined and an empty \<open>socket.data.pubKey\<close> are both falsy.
\<close>

definition on_disconnect :: "server_state \<Rightarrow> socket \<Rightarrow> server_state \<times> 'p delivery list" where
  "on_disconnect s socket =
     (let s1 = s\<lparr>rooms := leave_all (rooms s) socket\<rparr>
      in case pubKey s1 (sid socket) of
           None \<Rightarrow> (s1, [])
         | Some k \<Rightarrow>
             if k = [] then (s1, [])
             else (s1\<lparr>userSockets := obj_delete (userSockets s1) k\<rparr>, []))"

text \<open>The dispatch of \<open>socket.on\<close>: one handler per event name.\<close>

fun handle :: "server_state \<Rightarrow> socket \<Rightarrow> int \<Rightarrow> 'p event \<Rightarrow> server_state \<times> 'p delivery list" where
  "handle s socket now (Register pubKey') = on_register s socket now pubKey'"
| "handle s socket now (RequestConnection to from) = on_request_connection s socket now to from"
| "handle s socket now (AcceptConnection to from) = on_accept_connection s socket to from"
| "handle s socket now (CallRequest to from callType) = on_call_request s socket to from callType"
| "handle s socket now (CallAccepted to from) = on_call_accepted s socket to from"
| "handle s socket now (CallRejected to from) = on_call_rejected s socket to from"
| "handle s socket now (CallEnded to from) = on_call_ended s socket to from"
| "handle s socket now (Join room) = on_join s socket room"
| "handle s socket now (Signal room payload) = on_signal s socket room payload"
| "handle s socket now (Auth room payload) = on_auth s socket room payload"
| "handle s socket now Disconnect = on_disconnect s socket"

text \<open>
  The server handles one event at a time (section 5): a run is a list of events, each
  with the socket that sent it and the clock value at its handling.
\<close>

fun run :: "server_state \<Rightarrow> (socket \<times> int \<times> 'p event) list \<Rightarrow> server_state" where
  "run s [] = s"
| "run s ((socket, now, e) # es) = run (fst (handle s socket now e)) es"

text \<open>
  Resolving an identifier is the expression \<open>userSockets[normKey(to)]\<close> of the relay
  handlers.
\<close>

definition resolve :: "server_state \<Rightarrow> jstring \<Rightarrow> lookup" where
  "resolve s identifier = obj_get (userSockets s) (normKey identifier)"

text \<open>Classification of the events, for stating properties of the dispatch.\<close>

fun relay_target :: "'p event \<Rightarrow> jstring option" where
  "relay_target (RequestConnection to from) = Some to"
| "relay_target (AcceptConnection to from) = Some to"
| "relay_target (CallRequest to from callType) = Some to"
| "relay_target (CallAccepted to from) = Some to"
| "relay_target (CallRejected to from) = Some to"
| "relay_target (CallEnded to from) = Some to"
| "relay_target _ = None"

fun gated :: "'p event \<Rightarrow> bool" where
  "gated (Register pubKey') = True"
| "gated (RequestConnection to from) = True"
| "gated _ = False"

text \<open>The invariant of the rate-limit table: every stored count lies between 1 and the limit.\<close>

definition rl_ok :: "rate_table \<Rightarrow> bool" where
  "rl_ok rl \<longleftrightarrow> (\<forall>ip r. rl ip = Some r \<longrightarrow> 1 \<le> count r \<and> count r \<le> LIMIT)"

section \<open>Properties of the rate limiter\<close>

lemmas handler_defs = on_register_def on_request_connection_def on_accept_connection_def
  on_call_request_def on_call_accepted_def on_call_rejected_def on_call_ended_def
  on_join_def on_signal_def on_auth_def on_disconnect_def

lemmas eval_defs = handler_defs isRateLimited_def obj_get_def obj_set_def obj_delete_def
  normKey_def js_whitespace_def str_def init_state_def resolve_def LIMIT_def TIME_FRAME_def
  object_prototype_names_def socket_join_def socket_to_emit_def leave_all_def Let_def

text \<open>Unfolding a run of equal events one step at a time.\<close>

lemma replicate_numeral_unfold:
  "replicate (numeral k) x = x # replicate (numeral k - 1) x"
  by (simp add: numeral_eq_Suc)

text \<open>The four branches of \<open>isRateLimited\<close>, one lemma each.\<close>

lemma isRateLimited_fresh:
  "rl (address sk) = None \<Longrightarrow>
   isRateLimited rl sk now = (False, rl(address sk \<mapsto> \<lparr>count = 1, startTime = now\<rparr>))"
  by (simp add: isRateLimited_def)

lemma isRateLimited_expired:
  "rl (address sk) = Some r \<Longrightarrow> now - startTime r > TIME_FRAME \<Longrightarrow>
   isRateLimited rl sk now = (False, rl(address sk \<mapsto> \<lparr>count = 1, startTime = now\<rparr>))"
  by (simp add: isRateLimited_def)

lemma isRateLimited_full:
  "rl (address sk) = Some r \<Longrightarrow> \<not> now - startTime r > TIME_FRAME \<Longrightarrow> LIMIT \<le> count r \<Longrightarrow>
   isRateLimited rl sk now = (True, rl)"
  by (simp add: isRateLimited_def)

lemma isRateLimited_incr:
  "rl (address sk) = Some r \<Longrightarrow> \<not> now - startTime r > TIME_FRAME \<Longrightarrow> \<not> LIMIT \<le> count r \<Longrightarrow>
   isRateLimited rl sk now = (False, rl(address sk \<mapsto> r\<lparr>count := count r + 1\<rparr>))"
  by (simp add: isRateLimited_def)

lemma isRateLimited_rejects_unchanged:
  "fst (isRateLimited rl sk now) \<Longrightarrow> snd (isRateLimited rl sk now) = rl"
  by (cases "rl (address sk)") (auto simp: isRateLimited_def Let_def split: if_splits)

lemma fst_run_checks_Cons:
  "fst (run_checks rl ((sk, t) # cs)) =
     fst (isRateLimited rl sk t) # fst (run_checks (snd (isRateLimited rl sk t)) cs)"
  by (simp split: prod.splits)


text \<open>The number of checks admitted inside a window is what is left of its budget.\<close>

lemma admitted_in_window:
  "rl ip = Some r \<Longrightarrow>
   \<forall>(sk, t) \<in> set cs. address sk = ip \<and> t - startTime r \<le> TIME_FRAME \<Longrightarrow>
   length (filter Not (fst (run_checks rl cs))) = min (length cs) (LIMIT - count r)"
proof (induction cs arbitrary: rl r)
  case Nil
  then show ?case by simp
next
  case (Cons c cs)
  obtain sk t where c: "c = (sk, t)" by (cases c)
  from Cons.prems c have ip: "address sk = ip" and win: "\<not> t - startTime r > TIME_FRAME"
    by auto
  from Cons.prems have rest: "\<forall>(sk, t) \<in> set cs. address sk = ip \<and> t - startTime r \<le> TIME_FRAME"
    by auto
  show ?case
  proof (cases "LIMIT \<le> count r")
    case True
    with Cons.prems(1) ip win have step: "isRateLimited rl sk t = (True, rl)"
      by (simp add: isRateLimited_full)
    have "length (filter Not (fst (run_checks rl cs))) = min (length cs) (LIMIT - count r)"
      using Cons.prems(1) rest by (rule Cons.IH)
    with True c step show ?thesis
      by (simp add: fst_run_checks_Cons del: run_checks.simps)
  next
    case False
    let ?r = "r\<lparr>count := count r + 1\<rparr>"
    let ?rl = "rl(ip \<mapsto> ?r)"
    from False Cons.prems(1) ip win have step: "isRateLimited rl sk t = (False, ?rl)"
      using isRateLimited_incr [of rl sk r t] by simp
    have "?rl ip = Some ?r" by simp
    moreover from rest have "\<forall>(sk, t) \<in> set cs. address sk = ip \<and> t - startTime ?r \<le> TIME_FRAME"
      by simp
    ultimately have "length (filter Not (fst (run_checks ?rl cs))) = min (length cs) (LIMIT - count ?r)"
      by (rule Cons.IH)
    with False c step ip show ?thesis
      by (simp add: fst_run_checks_Cons del: run_checks.simps)
  qed
qed

text \<open>The table invariant is kept by a check, by every handler and so by every run.\<close>

lemma rl_ok_isRateLimited:
  assumes "rl_ok rl"
  shows "rl_ok (snd (isRateLimited rl sk now))"
  using assms
  by (auto simp: rl_ok_def isRateLimited_def Let_def LIMIT_def split: option.splits if_splits)

lemma handle_rateLimit:
  "rateLimit (fst (handle s sk now e)) =
     (if gated e then snd (isRateLimited (rateLimit s) sk now) else rateLimit s)"
  by (cases e)
     (auto simp: handler_defs Let_def isRateLimited_rejects_unchanged
           split: prod.splits option.splits)

lemma rl_ok_run:
  "rl_ok (rateLimit s) \<Longrightarrow> rl_ok (rateLimit (run s es))"
proof (induction es arbitrary: s)
  case Nil
  then show ?case by simp
next
  case (Cons x es)
  obtain sk now e where x: "x = (sk, now, e)" by (cases x)
  from Cons.prems have "rl_ok (rateLimit (fst (handle s sk now e)))"
    by (simp add: handle_rateLimit rl_ok_isRateLimited)
  then have "rl_ok (rateLimit (run (fst (handle s sk now e)) es))"
    by (rule Cons.IH)
  with x show ?case by simp
qed



text \<open>
  Claim C10. From the start of the server and after any sequence of events, by any
  connections at any clock values, every stored count lies between 1 and 20. A check
  that is rejected leaves the table as it was, so it uses up nothing. And of the
  checks of one origin that fall into one window, the one that opens it included, at
  most 20 are admitted.
\<close>

theorem count_never_exceeds_limit:
  "(\<forall>ip r. rateLimit (run init_state es) ip = Some r \<longrightarrow> 1 \<le> count r \<and> count r \<le> 20)
   \<and> (fst (isRateLimited rl sk now) \<longrightarrow> snd (isRateLimited rl sk now) = rl)
   \<and> (address opener = ip \<and> (\<forall>(sk, t) \<in> set cs. address sk = ip \<and> t - start \<le> TIME_FRAME) \<and>
        (rl ip = None \<or> (\<exists>r. rl ip = Some r \<and> start - startTime r > TIME_FRAME))
       \<longrightarrow> length (filter Not (fst (run_checks rl ((opener, start) # cs)))) \<le> 20)"
proof (intro conjI impI)
  have "rl_ok (rateLimit init_state)"
    by (simp add: rl_ok_def init_state_def)
  then have "rl_ok (rateLimit (run init_state es))"
    by (rule rl_ok_run)
  then show "\<forall>ip r. rateLimit (run init_state es) ip = Some r \<longrightarrow> 1 \<le> count r \<and> count r \<le> 20"
    by (simp add: rl_ok_def LIMIT_def)
next
  assume "fst (isRateLimited rl sk now)"
  then show "snd (isRateLimited rl sk now) = rl"
    by (rule isRateLimited_rejects_unchanged)
next
  assume a: "address opener = ip \<and> (\<forall>(sk, t) \<in> set cs. address sk = ip \<and> t - start \<le> TIME_FRAME) \<and>
        (rl ip = None \<or> (\<exists>r. rl ip = Some r \<and> start - startTime r > TIME_FRAME))"
  let ?r = "\<lparr>count = 1, startTime = start\<rparr>"
  let ?rl = "rl(ip \<mapsto> ?r)"
  from a have step: "isRateLimited rl opener start = (False, ?rl)"
    using isRateLimited_fresh [of rl opener start] isRateLimited_expired [of rl opener _ start]
    by auto
  have "?rl ip = Some ?r" by simp
  moreover from a have "\<forall>(sk, t) \<in> set cs. address sk = ip \<and> t - startTime ?r \<le> TIME_FRAME"
    by simp
  ultimately have "length (filter Not (fst (run_checks ?rl cs))) = min (length cs) (LIMIT - count ?r)"
    by (rule admitted_in_window)
  with step show "length (filter Not (fst (run_checks rl ((opener, start) # cs)))) \<le> 20"
    by (simp add: fst_run_checks_Cons LIMIT_def del: run_checks.simps)
qed

theorem count_never_exceeds_limit_witness:
  "rateLimit (run init_state
       (replicate 25 (\<lparr>sid = str ''c1'', address = str ''ip''\<rparr>, 5, Register None :: unit event)))
     (str ''ip'') = Some \<lparr>count = 20, startTime = 5\<rparr>
   \<and> isRateLimited [str ''ip'' \<mapsto> \<lparr>count = 20, startTime = 5\<rparr>]
        \<lparr>sid = str ''c1'', address = str ''ip''\<rparr> 6
     = (True, [str ''ip'' \<mapsto> \<lparr>count = 20, startTime = 5\<rparr>])
   \<and> length (filter Not (fst (run_checks Map.empty
        ((\<lparr>sid = str ''c1'', address = str ''ip''\<rparr>, 5) #
         replicate 30 (\<lparr>sid = str ''c1'', address = str ''ip''\<rparr>, 6))))) \<le> 20"
proof -
  let ?sk = "\<lparr>sid = str ''c1'', address = str ''ip''\<rparr>"
  have a: "rateLimit (run init_state (replicate 25 (?sk, 5, Register None :: unit event)))
     (str ''ip'') = Some \<lparr>count = 20, startTime = 5\<rparr>"
    by (simp add: eval_defs replicate_numeral_unfold)
  have b: "fst (isRateLimited [str ''ip'' \<mapsto> \<lparr>count = 20, startTime = 5\<rparr>] ?sk 6)"
    by (simp add: eval_defs)
  note inst = count_never_exceeds_limit [where es = "replicate 25 (?sk, 5, Register None :: unit event)"
        and rl = Map.empty and sk = ?sk and now = 6 and opener = ?sk and start = 5
        and ip = "str ''ip''" and cs = "replicate 30 (?sk, 6)"]
  have c: "length (filter Not (fst (run_checks Map.empty ((?sk, 5) # replicate 30 (?sk, 6))))) \<le> 20"
    using inst by (simp add: TIME_FRAME_def del: run_checks.simps)
  from a b c show ?thesis
    by (simp add: isRateLimited_rejects_unchanged prod_eq_iff del: run_checks.simps)
qed

section \<open>Properties of the registry\<close>

lemma run_append: "run s (xs @ ys) = run (run s xs) ys"
  by (induction xs arbitrary: s) auto

lemma isRateLimited_True:
  "isRateLimited rl sk now = (True, rl') \<Longrightarrow> rl' = rl"
  using isRateLimited_rejects_unchanged [of rl sk now] by simp

text \<open>Who writes \<open>socket.data.pubKey\<close>: only an effective registration, and only its own.\<close>

lemma handle_pubKey_other:
  "c \<noteq> sid sk \<Longrightarrow> pubKey (fst (handle s sk now e)) c = pubKey s c"
  by (cases e) (auto simp: handler_defs Let_def split: prod.splits option.splits)

lemma handle_pubKey_not_register:
  "(\<forall>k. e = Register (Some k) \<longrightarrow> k = [] \<or> fst (isRateLimited (rateLimit s) sk now)) \<Longrightarrow>
   pubKey (fst (handle s sk now e)) = pubKey s"
  by (cases e) (auto simp: handler_defs Let_def split: prod.splits option.splits)

lemma register_sets_pubKey:
  "\<not> fst (isRateLimited (rateLimit s) sk now) \<Longrightarrow> k \<noteq> [] \<Longrightarrow>
   pubKey (fst (handle s sk now (Register (Some k)))) (sid sk) = Some (normKey k)"
  by (auto simp: handler_defs Let_def split: prod.splits)

lemma register_absent_or_empty_noop:
  "p = None \<or> p = Some [] \<Longrightarrow>
   userSockets (fst (handle s sk now (Register p))) = userSockets s \<and>
   pubKey (fst (handle s sk now (Register p))) = pubKey s"
  by (auto simp: on_register_def Let_def split: prod.splits)

lemma handle_keeps_attached:
  assumes "pubKey s c = Some K"
    and "sid sk = c \<longrightarrow> (\<forall>k. e = Register (Some k) \<longrightarrow> k = [] \<or> normKey k = K)"
  shows "pubKey (fst (handle s sk now e)) c = Some K"
proof (cases "sid sk = c")
  case True
  with assms show ?thesis
    by (cases e) (auto simp: handler_defs Let_def split: prod.splits option.splits)
next
  case False
  with assms(1) show ?thesis
    by (simp add: handle_pubKey_other)
qed

lemma run_keeps_attached:
  "pubKey s c = Some K \<Longrightarrow>
   \<forall>(sk, t, e) \<in> set es. sid sk = c \<longrightarrow> (\<forall>k. e = Register (Some k) \<longrightarrow> k = [] \<or> normKey k = K) \<Longrightarrow>
   pubKey (run s es) c = Some K"
proof (induction es arbitrary: s)
  case Nil
  then show ?case by simp
next
  case (Cons x es)
  obtain sk t e where x: "x = (sk, t, e)" by (cases x)
  from Cons.prems x have "pubKey (fst (handle s sk t e)) c = Some K"
    by (intro handle_keeps_attached) auto
  moreover from Cons.prems
  have "\<forall>(sk, t, e) \<in> set es. sid sk = c \<longrightarrow> (\<forall>k. e = Register (Some k) \<longrightarrow> k = [] \<or> normKey k = K)"
    by simp
  ultimately have "pubKey (run (fst (handle s sk t e)) es) c = Some K"
    by (rule Cons.IH)
  with x show ?case by simp
qed

lemma disconnect_deletes_attached:
  "pubKey s (sid sk) = Some k \<Longrightarrow> k \<noteq> [] \<Longrightarrow>
   userSockets (fst (handle s sk now Disconnect)) k = None"
  by (simp add: on_disconnect_def obj_delete_def Let_def)

text \<open>
  Claim C1 says that the cleanup at disconnect removes the mapping of an identifier
  only if it still points at the disconnecting connection, so that a connection that
  took the identifier over stays reachable. The handler deletes the mapping whatever
  it points at: connection c1 registers "A", connection c2 registers "A" and
  \<open>resolve\<close> yields c2; then c1 disconnects and \<open>resolve\<close> yields nothing, although
  c2 is still connected.
\<close>

theorem displaced_disconnect_removes_successor_mapping:
  "resolve (run init_state
       [(\<lparr>sid = str ''c1'', address = str ''ip1''\<rparr>, 0, Register (Some (str ''A'')) :: unit event),
        (\<lparr>sid = str ''c2'', address = str ''ip2''\<rparr>, 1, Register (Some (str ''A'')))])
     (str ''A'') = ConnId (str ''c2'')
   \<and> resolve (run init_state
       [(\<lparr>sid = str ''c1'', address = str ''ip1''\<rparr>, 0, Register (Some (str ''A'')) :: unit event),
        (\<lparr>sid = str ''c2'', address = str ''ip2''\<rparr>, 1, Register (Some (str ''A''))),
        (\<lparr>sid = str ''c1'', address = str ''ip1''\<rparr>, 2, Disconnect)])
     (str ''A'') = Undefined"
  by (simp add: eval_defs)

text \<open>
  What the cleanup does achieve. Let a connection register an identifier \<open>A\<close> that is
  not empty after normalisation, the registration being admitted by the rate limiter,
  and let it afterwards register nothing but \<open>A\<close> again (in any spelling with the same
  normal form). When it then disconnects, the registry holds no entry for \<open>A\<close>, and
  for a key that \<open>Object.prototype\<close> does not answer for, resolving \<open>A\<close> yields
  \<open>undefined\<close>.
\<close>

lemma disconnect_removes_attached_identifier:
  assumes admitted: "\<not> fst (isRateLimited (rateLimit s) sk now)"
    and nonempty: "normKey A \<noteq> []"
    and own: "\<forall>(sk', t, e) \<in> set (es :: (socket \<times> int \<times> 'p event) list).
                 sid sk' = sid sk \<longrightarrow> (\<forall>k. e = Register (Some k) \<longrightarrow> k = [] \<or> normKey k = normKey A)"
  shows "userSockets (run s ((sk, now, Register (Some A)) # es @ [(sk, later, Disconnect)])) (normKey A) = None
     \<and> (normKey A \<notin> set object_prototype_names \<longrightarrow>
          resolve (run s ((sk, now, Register (Some A)) # es @ [(sk, later, Disconnect)])) A = Undefined)"
proof -
  let ?s1 = "fst (handle s sk now (Register (Some A) :: 'p event))"
  let ?s2 = "run ?s1 es"
  let ?s3 = "fst (handle ?s2 sk later (Disconnect :: 'p event))"
  from nonempty have "A \<noteq> []" by (auto simp: normKey_def)
  with admitted have "pubKey ?s1 (sid sk) = Some (normKey A)"
    by (rule register_sets_pubKey)
  then have "pubKey ?s2 (sid sk) = Some (normKey A)"
    using own by (rule run_keeps_attached)
  then have gone: "userSockets ?s3 (normKey A) = None"
    using nonempty by (rule disconnect_deletes_attached)
  have final: "run s ((sk, now, Register (Some A)) # es @ [(sk, later, Disconnect)]) = ?s3"
    by (simp add: run_append)
  from gone show ?thesis
    unfolding final by (simp add: resolve_def obj_get_def)
qed

text \<open>
  Claim C2 says that after a connection that registered an identifier \<open>A\<close> has
  disconnected, resolving \<open>A\<close> finds nothing, whatever sequence of \<open>register\<close> events
  the connection sent before. The socket remembers one key only, the one of its latest
  registration, and the cleanup at disconnect deletes that key alone: connection c1
  registers "A" and then "B" and disconnects; the entry for "B" is removed, but
  the entry for "A" stays and resolving "A" still yields the id of the connection
  that is gone.
\<close>

theorem earlier_registration_survives_disconnect:
  "resolve (run init_state
       [(\<lparr>sid = str ''c1'', address = str ''ip1''\<rparr>, 0, Register (Some (str ''A'')) :: unit event),
        (\<lparr>sid = str ''c1'', address = str ''ip1''\<rparr>, 1, Register (Some (str ''B''))),
        (\<lparr>sid = str ''c1'', address = str ''ip1''\<rparr>, 2, Disconnect)])
     (str ''A'') = ConnId (str ''c1'')
   \<and> resolve (run init_state
       [(\<lparr>sid = str ''c1'', address = str ''ip1''\<rparr>, 0, Register (Some (str ''A'')) :: unit event),
        (\<lparr>sid = str ''c1'', address = str ''ip1''\<rparr>, 1, Register (Some (str ''B''))),
        (\<lparr>sid = str ''c1'', address = str ''ip1''\<rparr>, 2, Disconnect)])
     (str ''B'') = Undefined"
  by (simp add: eval_defs)

text \<open>
  Claim C3, as amended. The attached identifier of a connection is written by its own
  registrations only, and every effective registration (admitted by the rate limiter,
  identifier present and not empty) overwrites it with the newly normalised
  identifier: it is the latest registered identifier, not the first. Every other event
  leaves all attached identifiers as they were, and no event changes the attached
  identifier of another connection.
\<close>

theorem attached_identifier_follows_latest_registration:
  "(\<not> fst (isRateLimited (rateLimit s) sk now) \<and> k \<noteq> [] \<longrightarrow>
      pubKey (fst (handle s sk now (Register (Some k) :: 'p event))) (sid sk) = Some (normKey k))
   \<and> ((\<forall>k. e = Register (Some k) \<longrightarrow> k = [] \<or> fst (isRateLimited (rateLimit s) sk now)) \<longrightarrow>
      pubKey (fst (handle s sk now (e :: 'p event))) = pubKey s)
   \<and> (c \<noteq> sid sk \<longrightarrow> pubKey (fst (handle s sk now e)) c = pubKey s c)"
  by (simp add: register_sets_pubKey handle_pubKey_not_register handle_pubKey_other
           del: handle.simps)

theorem attached_identifier_follows_latest_registration_witness:
  "pubKey (fst (handle
       (run init_state [(\<lparr>sid = str ''c1'', address = str ''ip1''\<rparr>, 0, Register (Some (str ''alice'')) :: unit event)])
       \<lparr>sid = str ''c1'', address = str ''ip1''\<rparr> 1 (Register (Some (str '' b o b '')) :: unit event)))
     (str ''c1'') = Some (str ''bob'')
   \<and> pubKey (fst (handle
       (run init_state [(\<lparr>sid = str ''c1'', address = str ''ip1''\<rparr>, 0, Register (Some (str ''alice'')) :: unit event)])
       \<lparr>sid = str ''c1'', address = str ''ip1''\<rparr> 1 (Join (str ''r'') :: unit event)))
     (str ''c1'') = Some (str ''alice'')
   \<and> pubKey (fst (handle
       (run init_state [(\<lparr>sid = str ''c1'', address = str ''ip1''\<rparr>, 0, Register (Some (str ''alice'')) :: unit event)])
       \<lparr>sid = str ''c2'', address = str ''ip2''\<rparr> 1 (Register (Some (str ''carol'')) :: unit event)))
     (str ''c1'') = Some (str ''alice'')"
proof -
  let ?c1 = "\<lparr>sid = str ''c1'', address = str ''ip1''\<rparr>"
  let ?c2 = "\<lparr>sid = str ''c2'', address = str ''ip2''\<rparr>"
  let ?s = "run init_state [(?c1, 0, Register (Some (str ''alice'')) :: unit event)]"
  have before: "pubKey ?s (str ''c1'') = Some (str ''alice'')"
    by (simp add: eval_defs)
  have admitted: "\<not> fst (isRateLimited (rateLimit ?s) ?c1 1)"
    by (simp add: eval_defs)
  have n: "str '' b o b '' \<noteq> [] \<and> normKey (str '' b o b '') = str ''bob''"
    by (simp add: eval_defs)
  have other: "str ''c1'' \<noteq> sid ?c2"
    by (simp add: str_def)
  from attached_identifier_follows_latest_registration
         [where s = ?s and sk = ?c1 and now = 1 and k = "str '' b o b ''"
            and e = "Join (str ''r'') :: unit event"]
       attached_identifier_follows_latest_registration
         [where s = ?s and sk = ?c2 and now = 1 and c = "str ''c1''"
            and e = "Register (Some (str ''carol'')) :: unit event"]
       before admitted n other
  show ?thesis by (simp del: handle.simps run.simps)
qed

theorem attached_identifier_overwritten:
  "pubKey (run init_state
       [(\<lparr>sid = str ''c1'', address = str ''ip1''\<rparr>, 0, Register (Some (str ''alice'')) :: unit event)])
     (str ''c1'') = Some (str ''alice'')
   \<and> pubKey (run init_state
       [(\<lparr>sid = str ''c1'', address = str ''ip1''\<rparr>, 0, Register (Some (str ''alice'')) :: unit event),
        (\<lparr>sid = str ''c1'', address = str ''ip1''\<rparr>, 1, Register (Some (str ''bob'')))])
     (str ''c1'') = Some (str ''bob'')"
  by (simp add: eval_defs)

text \<open>
  Claim C4 says that \<open>register\<close> normalises first and then does nothing when the
  identifier is empty, an identifier of white space only included. The handler tests
  the identifier before it normalises it: the identifier " " is not empty, so it is
  registered under the empty key and the empty key becomes the attached identifier.
  At disconnect the empty attached identifier is falsy, so the entry is never removed.
\<close>

theorem whitespace_only_identifier_is_registered:
  "userSockets (run init_state
       [(\<lparr>sid = str ''c1'', address = str ''ip1''\<rparr>, 0, Register (Some (str '' '')) :: unit event)])
     [] = Some (str ''c1'')
   \<and> pubKey (run init_state
       [(\<lparr>sid = str ''c1'', address = str ''ip1''\<rparr>, 0, Register (Some (str '' '')) :: unit event)])
     (str ''c1'') = Some []
   \<and> userSockets (run init_state
       [(\<lparr>sid = str ''c1'', address = str ''ip1''\<rparr>, 0, Register (Some (str '' '')) :: unit event),
        (\<lparr>sid = str ''c1'', address = str ''ip1''\<rparr>, 1, Disconnect)])
     [] = Some (str ''c1'')"
  by (simp add: eval_defs)

text \<open>
  Claim C6, as amended. Let connection \<open>ca\<close> register an identifier \<open>A\<close> that is
  not empty after normalisation, the registration being admitted by the rate limiter,
  and let the normalised identifier be an ordinary key (not \<open>__proto__\<close>). Then
  resolving any string \<open>B\<close> that equals \<open>A\<close> after the removal of all white space
  yields \<open>ca\<close>; and when connection \<open>cb\<close> then registers an identifier \<open>A'\<close> with
  the same normal form, again admitted, resolving \<open>B\<close> yields \<open>cb\<close>: the last
  writer wins.
\<close>

theorem register_resolve_roundtrip:
  assumes admitted: "\<not> fst (isRateLimited (rateLimit s) ca ta)"
    and nonempty: "normKey A \<noteq> []"
    and ordinary: "normKey A \<noteq> str ''__proto__''"
  shows "(normKey B = normKey A \<longrightarrow>
            resolve (run s [(ca, ta, Register (Some A) :: 'p event)]) B = ConnId (sid ca))
       \<and> (normKey B = normKey A \<and> normKey A' = normKey A \<and>
            \<not> fst (isRateLimited (rateLimit (run s [(ca, ta, Register (Some A) :: 'p event)])) cb tb) \<longrightarrow>
            resolve (run s [(ca, ta, Register (Some A) :: 'p event), (cb, tb, Register (Some A'))]) B
              = ConnId (sid cb))"
proof -
  from nonempty have "A \<noteq> []"
    by (auto simp: normKey_def)
  moreover have "normKey A' = normKey A \<Longrightarrow> A' \<noteq> []"
    using nonempty by (auto simp: normKey_def)
  ultimately show ?thesis
    using admitted ordinary
    by (auto simp: on_register_def resolve_def obj_get_def obj_set_def Let_def split: prod.splits)
qed

theorem register_resolve_roundtrip_witness:
  "resolve (run init_state
       [(\<lparr>sid = str ''c1'', address = str ''ip1''\<rparr>, 0, Register (Some (str '' a b '')) :: unit event)])
     (str ''ab'') = ConnId (str ''c1'')
   \<and> resolve (run init_state
       [(\<lparr>sid = str ''c1'', address = str ''ip1''\<rparr>, 0, Register (Some (str '' a b '')) :: unit event),
        (\<lparr>sid = str ''c2'', address = str ''ip2''\<rparr>, 1, Register (Some (str ''a b'')))])
     (str ''ab'') = ConnId (str ''c2'')"
proof -
  let ?c1 = "\<lparr>sid = str ''c1'', address = str ''ip1''\<rparr>"
  let ?c2 = "\<lparr>sid = str ''c2'', address = str ''ip2''\<rparr>"
  have h1: "\<not> fst (isRateLimited (rateLimit init_state) ?c1 0)"
    by (simp add: eval_defs)
  have h2: "normKey (str '' a b '') \<noteq> []"
    by (simp add: eval_defs)
  have h3: "normKey (str '' a b '') \<noteq> str ''__proto__''"
    by (simp add: eval_defs)
  have n1: "normKey (str ''ab'') = normKey (str '' a b '')"
    by (simp add: eval_defs)
  have n2: "normKey (str ''a b'') = normKey (str '' a b '')"
    by (simp add: eval_defs)
  have h4: "\<not> fst (isRateLimited (rateLimit (run init_state
       [(?c1, 0, Register (Some (str '' a b '')) :: unit event)])) ?c2 1)"
    by (simp add: eval_defs)
  from register_resolve_roundtrip [OF h1 h2 h3, where B = "str ''ab''" and A' = "str ''a b''"
      and cb = ?c2 and tb = 1, where ?'p = unit] n1 n2 h4
  show ?thesis by simp
qed

theorem roundtrip_counterexample:
  "resolve (run init_state
       [(\<lparr>sid = str ''c1'', address = str ''ip1''\<rparr>, 0, Register (Some []) :: unit event)])
     (str '' '') = Undefined
   \<and> resolve (run init_state
       (replicate 20 (\<lparr>sid = str ''c1'', address = str ''ip1''\<rparr>, 0, Register (Some (str ''A'')) :: unit event)
        @ [(\<lparr>sid = str ''c1'', address = str ''ip1''\<rparr>, 1, Register (Some (str ''B'')))]))
     (str ''B'') = Undefined
   \<and> resolve (run init_state
       [(\<lparr>sid = str ''c1'', address = str ''ip1''\<rparr>, 0, Register (Some (str ''__proto__'')) :: unit event)])
     (str ''__proto__'') = Inherited"
  by (simp add: eval_defs replicate_numeral_unfold)

section \<open>Properties of the relay and of the rooms\<close>

text \<open>
  Claim C7. For each of the six relay events (\<open>request-connection\<close>,
  \<open>accept-connection\<close>, \<open>call-request\<close>, \<open>call-accepted\<close>, \<open>call-rejected\<close>,
  \<open>call-ended\<close>): when the registry holds no entry for the normalised target
  identifier, handling the event delivers nothing to any connection, the sender
  included, so no error reaches the sender, and the registry is left as it was; the
  only part of the state that may change is the rate-limit table.
\<close>

theorem relay_miss_is_silent:
  assumes "relay_target e = Some to" and "userSockets s (normKey to) = None"
  shows "snd (handle s sk now e) = []
       \<and> userSockets (fst (handle s sk now e)) = userSockets s
       \<and> fst (handle s sk now e) = s\<lparr>rateLimit := rateLimit (fst (handle s sk now e))\<rparr>"
  using assms
  by (cases e) (auto simp: handler_defs obj_get_def Let_def split: prod.splits)

theorem relay_miss_is_silent_witness:
  "snd (handle
       (run init_state [(\<lparr>sid = str ''c1'', address = str ''ip1''\<rparr>, 0, Register (Some (str ''alice'')) :: unit event)])
       \<lparr>sid = str ''c2'', address = str ''ip2''\<rparr> 1
       (RequestConnection (str ''b ob'') (str ''carol'') :: unit event)) = []
   \<and> userSockets (fst (handle
       (run init_state [(\<lparr>sid = str ''c1'', address = str ''ip1''\<rparr>, 0, Register (Some (str ''alice'')) :: unit event)])
       \<lparr>sid = str ''c2'', address = str ''ip2''\<rparr> 1
       (RequestConnection (str ''b ob'') (str ''carol'') :: unit event)))
     = [str ''alice'' \<mapsto> str ''c1'']
   \<and> snd (handle
       (run init_state [(\<lparr>sid = str ''c1'', address = str ''ip1''\<rparr>, 0, Register (Some (str ''alice'')) :: unit event)])
       \<lparr>sid = str ''c2'', address = str ''ip2''\<rparr> 1
       (CallRequest (str ''constructor'') (str ''carol'') () :: unit event)) = []"
proof -
  let ?c2 = "\<lparr>sid = str ''c2'', address = str ''ip2''\<rparr>"
  let ?s = "run init_state [(\<lparr>sid = str ''c1'', address = str ''ip1''\<rparr>, 0, Register (Some (str ''alice'')) :: unit event)]"
  have registry: "userSockets ?s = [str ''alice'' \<mapsto> str ''c1'']"
    by (simp add: eval_defs)
  have t1: "relay_target (RequestConnection (str ''b ob'') (str ''carol'') :: unit event) = Some (str ''b ob'')"
    by simp
  have m1: "userSockets ?s (normKey (str ''b ob'')) = None"
    unfolding registry by (simp add: eval_defs)
  have t2: "relay_target (CallRequest (str ''constructor'') (str ''carol'') () :: unit event) = Some (str ''constructor'')"
    by simp
  have m2: "userSockets ?s (normKey (str ''constructor'')) = None"
    unfolding registry by (simp add: eval_defs)
  from relay_miss_is_silent [OF t1 m1, of ?c2 1] relay_miss_is_silent [OF t2 m2, of ?c2 1] registry
  show ?thesis by (simp del: handle.simps run.simps)
qed

text \<open>
  The end-to-end example of the specification (section 8): X registers "alice" and Y
  registers "bob"; a \<open>request-connection\<close> from Y to "alice" reaches X as
  \<open>incoming-request\<close> from "bob", and a \<open>call-request\<close> from X to "bob" reaches Y as
  \<open>incoming-call\<close> from "alice" with the call type unchanged.
\<close>

lemma end_to_end_example:
  "snd (handle
       (run init_state
          [(\<lparr>sid = str ''X'', address = str ''ip1''\<rparr>, 0, Register (Some (str ''alice'')) :: string event),
           (\<lparr>sid = str ''Y'', address = str ''ip2''\<rparr>, 1, Register (Some (str ''bob'')))])
       \<lparr>sid = str ''Y'', address = str ''ip2''\<rparr> 2
       (RequestConnection (str ''alice'') (str ''bob'')))
     = [(str ''X'', ''incoming-request'', From (str ''bob'') :: string body)]
   \<and> snd (handle
       (run init_state
          [(\<lparr>sid = str ''X'', address = str ''ip1''\<rparr>, 0, Register (Some (str ''alice'')) :: string event),
           (\<lparr>sid = str ''Y'', address = str ''ip2''\<rparr>, 1, Register (Some (str ''bob'')))])
       \<lparr>sid = str ''X'', address = str ''ip1''\<rparr> 2
       (CallRequest (str ''bob'') (str ''alice'') ''video''))
     = [(str ''Y'', ''incoming-call'', FromCall (str ''alice'') ''video'')]"
  by (simp add: eval_defs)

text \<open>
  Claim C8. For every room \<open>r\<close>, every payload \<open>P\<close> and whatever the members of \<open>r\<close>
  are: when connection \<open>sk\<close> emits \<open>signal\<close> with \<open>{room: r, payload: P}\<close>, every
  member of \<open>r\<close> other than \<open>sk\<close> is sent a \<open>signal\<close> event that carries exactly \<open>P\<close>;
  every delivery goes to a member other than \<open>sk\<close> and is that event, so \<open>sk\<close> gets
  nothing from its own emission; the state is unchanged. The same holds for \<open>auth\<close>.
\<close>

theorem room_broadcast_excludes_sender:
  "(\<forall>m \<in> set (rooms s r). m \<noteq> sid sk \<longrightarrow>
       (m, ''signal'', Payload P) \<in> set (snd (handle s sk now (Signal r P)))
     \<and> (m, ''auth'', Payload P) \<in> set (snd (handle s sk now (Auth r P))))
   \<and> (\<forall>d \<in> set (snd (handle s sk now (Signal r P))).
         fst d \<in> set (rooms s r) \<and> fst d \<noteq> sid sk \<and> snd d = (''signal'', Payload P))
   \<and> (\<forall>d \<in> set (snd (handle s sk now (Auth r P))).
         fst d \<in> set (rooms s r) \<and> fst d \<noteq> sid sk \<and> snd d = (''auth'', Payload P))
   \<and> fst (handle s sk now (Signal r P)) = s \<and> fst (handle s sk now (Auth r P)) = s"
  by (auto simp: on_signal_def on_auth_def socket_to_emit_def)

theorem room_broadcast_excludes_sender_witness:
  "rooms (run init_state
       [(\<lparr>sid = str ''x'', address = str ''ip1''\<rparr>, 0, Join (str ''r'') :: nat event),
        (\<lparr>sid = str ''y'', address = str ''ip2''\<rparr>, 1, Join (str ''r'')),
        (\<lparr>sid = str ''z'', address = str ''ip3''\<rparr>, 2, Join (str ''q''))]) (str ''r'')
     = [str ''x'', str ''y'']
   \<and> snd (handle (run init_state
       [(\<lparr>sid = str ''x'', address = str ''ip1''\<rparr>, 0, Join (str ''r'') :: nat event),
        (\<lparr>sid = str ''y'', address = str ''ip2''\<rparr>, 1, Join (str ''r'')),
        (\<lparr>sid = str ''z'', address = str ''ip3''\<rparr>, 2, Join (str ''q''))])
       \<lparr>sid = str ''x'', address = str ''ip1''\<rparr> 3 (Signal (str ''r'') 7))
     = [(str ''y'', ''signal'', Payload 7)]
   \<and> snd (handle (run init_state
       [(\<lparr>sid = str ''x'', address = str ''ip1''\<rparr>, 0, Join (str ''r'') :: nat event),
        (\<lparr>sid = str ''y'', address = str ''ip2''\<rparr>, 1, Join (str ''r'')),
        (\<lparr>sid = str ''z'', address = str ''ip3''\<rparr>, 2, Join (str ''q''))])
       \<lparr>sid = str ''x'', address = str ''ip1''\<rparr> 3 (Auth (str ''r'') 7))
     = [(str ''y'', ''auth'', Payload 7)]"
proof -
  let ?x = "\<lparr>sid = str ''x'', address = str ''ip1''\<rparr>"
  let ?s = "run init_state
       [(?x, 0, Join (str ''r'') :: nat event),
        (\<lparr>sid = str ''y'', address = str ''ip2''\<rparr>, 1, Join (str ''r'')),
        (\<lparr>sid = str ''z'', address = str ''ip3''\<rparr>, 2, Join (str ''q''))]"
  have members: "rooms ?s (str ''r'') = [str ''x'', str ''y'']"
    by (simp add: eval_defs)
  have other: "str ''y'' \<noteq> sid ?x"
    by (simp add: str_def)
  from room_broadcast_excludes_sender [of ?s "str ''r''" ?x "7 :: nat" 3] members other
  have "(str ''y'', ''signal'', Payload (7 :: nat)) \<in> set (snd (handle ?s ?x 3 (Signal (str ''r'') 7)))"
    by (simp del: handle.simps run.simps)
  with members show ?thesis
    by (simp add: on_signal_def on_auth_def socket_to_emit_def str_def del: run.simps)
qed

text \<open>
  Claim C9. Exactly the events \<open>register\<close> and \<open>request-connection\<close> go through the
  rate limiter. Handling any other event leaves the rate-limit table as it is and
  gives the same result whatever the table and the clock hold, so it is never
  rejected; handling \<open>register\<close> or \<open>request-connection\<close> performs one check of the
  table and, when the check rejects, does nothing at all.
\<close>

theorem only_register_and_request_connection_are_gated:
  "(gated e \<longleftrightarrow> (\<exists>p. e = Register p) \<or> (\<exists>to from. e = RequestConnection to from))
   \<and> (\<not> gated e \<longrightarrow>
        rateLimit (fst (handle s sk now e)) = rateLimit s
      \<and> handle (s\<lparr>rateLimit := rl\<rparr>) sk now' e =
          ((fst (handle s sk now e))\<lparr>rateLimit := rl\<rparr>, snd (handle s sk now e)))
   \<and> (gated e \<longrightarrow>
        rateLimit (fst (handle s sk now e)) = snd (isRateLimited (rateLimit s) sk now)
      \<and> (fst (isRateLimited (rateLimit s) sk now) \<longrightarrow> handle s sk now e = (s, [])))"
  by (cases e)
     (auto simp: handler_defs Let_def isRateLimited_rejects_unchanged
           dest: isRateLimited_True split: prod.splits option.splits)

theorem only_register_and_request_connection_are_gated_witness:
  "fst (isRateLimited (rateLimit (run init_state
       (replicate 20 (\<lparr>sid = str ''c1'', address = str ''ip1''\<rparr>, 0, Register (Some (str ''alice'')) :: unit event))))
     \<lparr>sid = str ''c1'', address = str ''ip1''\<rparr> 1)
   \<and> snd (handle (run init_state
       (replicate 20 (\<lparr>sid = str ''c1'', address = str ''ip1''\<rparr>, 0, Register (Some (str ''alice'')) :: unit event)))
       \<lparr>sid = str ''c1'', address = str ''ip1''\<rparr> 1
       (RequestConnection (str ''alice'') (str ''bob'') :: unit event)) = []
   \<and> snd (handle (run init_state
       (replicate 20 (\<lparr>sid = str ''c1'', address = str ''ip1''\<rparr>, 0, Register (Some (str ''alice'')) :: unit event)))
       \<lparr>sid = str ''c1'', address = str ''ip1''\<rparr> 1
       (AcceptConnection (str ''alice'') (str ''bob'') :: unit event))
     = [(str ''c1'', ''connection-accepted'', From (str ''bob''))]
   \<and> rateLimit (fst (handle (run init_state
       (replicate 20 (\<lparr>sid = str ''c1'', address = str ''ip1''\<rparr>, 0, Register (Some (str ''alice'')) :: unit event)))
       \<lparr>sid = str ''c1'', address = str ''ip1''\<rparr> 1
       (AcceptConnection (str ''alice'') (str ''bob'') :: unit event)))
       (str ''ip1'')
     = Some \<lparr>count = 20, startTime = 0\<rparr>"
proof -
  let ?c1 = "\<lparr>sid = str ''c1'', address = str ''ip1''\<rparr>"
  let ?s = "run init_state (replicate 20 (?c1, 0, Register (Some (str ''alice'')) :: unit event))"
  have table: "rateLimit ?s (str ''ip1'') = Some \<lparr>count = 20, startTime = 0\<rparr>"
    by (simp add: eval_defs replicate_numeral_unfold)
  have limited: "fst (isRateLimited (rateLimit ?s) ?c1 1)"
    by (simp add: eval_defs replicate_numeral_unfold)
  have g1: "gated (RequestConnection (str ''alice'') (str ''bob'') :: unit event)"
    by simp
  have g2: "\<not> gated (AcceptConnection (str ''alice'') (str ''bob'') :: unit event)"
    by simp
  have accepted: "snd (handle ?s ?c1 1 (AcceptConnection (str ''alice'') (str ''bob'') :: unit event))
      = [(str ''c1'', ''connection-accepted'', From (str ''bob''))]"
    by (simp add: eval_defs replicate_numeral_unfold)
  from only_register_and_request_connection_are_gated
         [where e = "RequestConnection (str ''alice'') (str ''bob'') :: unit event"
            and s = ?s and sk = ?c1 and now = 1]
       only_register_and_request_connection_are_gated
         [where e = "AcceptConnection (str ''alice'') (str ''bob'') :: unit event"
            and s = ?s and sk = ?c1 and now = 1]
       limited g1 g2 accepted table
  show ?thesis by (simp del: handle.simps run.simps gated.simps)
qed

end
